theory Spec2Isabelle
  imports Complex_Main "HOL-Library.Word" "HOL-Library.Sublist"
begin

section \<open>JavaScript values used by convert.ts\<close>

text \<open>
  A JavaScript string is a sequence of UTF-16 code units. An optional value
  (\<^verbatim>\<open>string | undefined\<close>, a field declared with \<^verbatim>\<open>?\<close>) is an \<open>option\<close>,
  with \<open>None\<close> for \<^verbatim>\<open>undefined\<close>.
\<close>

type_synonym jstring = "16 word list"

text \<open>A string literal of the source, all of whose characters are ASCII.\<close>

definition ascii :: "string \<Rightarrow> jstring" where
  "ascii s = map (\<lambda>c. of_nat (of_char c)) s"

text \<open>
  The code units matched by \<^verbatim>\<open>\s\<close> in a regular expression and stripped by
  \<^verbatim>\<open>String.prototype.trim\<close>: ECMAScript's WhiteSpace (TAB, VT, FF, ZWNBSP and the
  space separators of Unicode) and LineTerminator (LF, CR, LS, PS).
\<close>

definition is_js_whitespace :: "16 word \<Rightarrow> bool" where
  "is_js_whitespace c \<longleftrightarrow>
     c = 0x0009 \<or> c = 0x000A \<or> c = 0x000B \<or> c = 0x000C \<or> c = 0x000D \<or>
     c = 0x0020 \<or> c = 0x00A0 \<or> c = 0x1680 \<or> (0x2000 \<le> c \<and> c \<le> 0x200A) \<or>
     c = 0x2028 \<or> c = 0x2029 \<or> c = 0x202F \<or> c = 0x205F \<or> c = 0x3000 \<or>
     c = 0xFEFF"

definition trim :: "jstring \<Rightarrow> jstring" where
  "trim s = rev (dropWhile is_js_whitespace (rev (dropWhile is_js_whitespace s)))"

text \<open>\<^verbatim>\<open>s.split('\n')\<close>: the pieces between line feeds; never the empty list.\<close>

fun split_newline :: "jstring \<Rightarrow> jstring list" where
  "split_newline [] = [[]]"
| "split_newline (c # cs) =
     (if c = 0x000A then [] # split_newline cs
      else (case split_newline cs of
              l # ls \<Rightarrow> (c # l) # ls
            | [] \<Rightarrow> [[c]]))"

text \<open>\<^verbatim>\<open>a || b\<close> on optional strings: \<^verbatim>\<open>undefined\<close> and \<^verbatim>\<open>''\<close> are falsy.\<close>

definition truthy :: "jstring option \<Rightarrow> bool" where
  "truthy a = (case a of None \<Rightarrow> False | Some s \<Rightarrow> s \<noteq> [])"

definition or_else :: "jstring option \<Rightarrow> jstring option \<Rightarrow> jstring option" where
  "or_else a b = (if truthy a then a else b)"

text \<open>\<^verbatim>\<open>a || 'literal'\<close>, whose value is always a string.\<close>

definition or_default :: "jstring option \<Rightarrow> jstring \<Rightarrow> jstring" where
  "or_default a d = (case a of None \<Rightarrow> d | Some s \<Rightarrow> if s \<noteq> [] then s else d)"

text \<open>A value interpolated into a template literal: \<^verbatim>\<open>`${undefined}`\<close> is the
  text \<^verbatim>\<open>undefined\<close>.\<close>

definition template_str :: "jstring option \<Rightarrow> jstring" where
  "template_str x = (case x of None \<Rightarrow> ascii ''undefined'' | Some s \<Rightarrow> s)"


subsection \<open>Numbers\<close>

text \<open>
  A JavaScript number is \<^verbatim>\<open>NaN\<close>, an infinity or a finite binary64 value, kept as
  the real number it denotes. The sign of zero is not modelled: both zeros are
  \<open>Fin 0\<close>.
\<close>

datatype jsnum = NaN | PosInf | NegInf | Fin real

text \<open>
  The rounding of IEEE 754 binary64 (round to nearest, ties to even), which
  every arithmetic operation and every conversion of a literal ends with.
  \<open>bit_length n\<close> is the number of binary digits of \<open>n\<close>, and \<open>exponent2 a\<close> is
  the integer \<open>e\<close> with \<open>2 ^ e \<le> a < 2 ^ (e + 1)\<close>, for a positive \<open>a\<close>.
\<close>

fun bit_length :: "nat \<Rightarrow> nat" where
  "bit_length n = (if n = 0 then 0 else Suc (bit_length (n div 2)))"

declare bit_length.simps [simp del]

definition exponent2 :: "real \<Rightarrow> int" where
  "exponent2 a =
     (if 1 \<le> a then int (bit_length (nat \<lfloor>a\<rfloor>)) - 1
      else - int (bit_length (nat (\<lceil>1 / a\<rceil> - 1))))"

definition pow2 :: "int \<Rightarrow> real" where
  "pow2 e = (if 0 \<le> e then 2 ^ nat e else 1 / 2 ^ nat (- e))"

text \<open>The distance between neighbouring binary64 values around a positive \<open>a\<close>:
  53 significant bits, and the least exponent \<open>-1022\<close> for the subnormal values.\<close>

definition quantum :: "real \<Rightarrow> real" where
  "quantum a = pow2 (max (exponent2 a) (- 1022) - 52)"

definition tie_to_even :: "int \<Rightarrow> real \<Rightarrow> int" where
  "tie_to_even f d =
     (if d < 1 / 2 then f else if 1 / 2 < d then f + 1
      else if even f then f else f + 1)"

definition round_half_even :: "real \<Rightarrow> int" where
  "round_half_even y = tie_to_even \<lfloor>y\<rfloor> (y - of_int \<lfloor>y\<rfloor>)"

definition nearest :: "real \<Rightarrow> real \<Rightarrow> real" where
  "nearest a q = of_int (round_half_even (a / q)) * q"

text \<open>A rounded magnitude of \<open>2 ^ 1024\<close> or more is an overflow: the result is an
  infinity.\<close>

definition finite_or_infinity :: "bool \<Rightarrow> real \<Rightarrow> jsnum" where
  "finite_or_infinity neg r =
     (if 2 ^ 1024 \<le> r then (if neg then NegInf else PosInf)
      else Fin (if neg then - r else r))"

definition binary64 :: "real \<Rightarrow> jsnum" where
  "binary64 x =
     (if x = 0 then Fin 0
      else finite_or_infinity (x < 0) (nearest \<bar>x\<bar> (quantum \<bar>x\<bar>)))"

fun js_times :: "jsnum \<Rightarrow> jsnum \<Rightarrow> jsnum" where
  "js_times NaN _ = NaN"
| "js_times _ NaN = NaN"
| "js_times (Fin a) (Fin b) = binary64 (a * b)"
| "js_times (Fin a) PosInf = (if a = 0 then NaN else if 0 < a then PosInf else NegInf)"
| "js_times (Fin a) NegInf = (if a = 0 then NaN else if 0 < a then NegInf else PosInf)"
| "js_times PosInf (Fin b) = (if b = 0 then NaN else if 0 < b then PosInf else NegInf)"
| "js_times NegInf (Fin b) = (if b = 0 then NaN else if 0 < b then NegInf else PosInf)"
| "js_times PosInf PosInf = PosInf"
| "js_times PosInf NegInf = NegInf"
| "js_times NegInf PosInf = NegInf"
| "js_times NegInf NegInf = PosInf"

text \<open>\<^verbatim>\<open>Math.round\<close>: the nearest integer, a tie going up; \<^verbatim>\<open>NaN\<close> and the
  infinities are returned as they are. The nearest integer of a binary64 value is
  a binary64 value, so nothing is rounded here.\<close>

fun Math_round :: "jsnum \<Rightarrow> jsnum" where
  "Math_round (Fin v) = Fin (of_int \<lfloor>v + 1 / 2\<rfloor>)"
| "Math_round x = x"

definition is_digit :: "16 word \<Rightarrow> bool" where
  "is_digit c \<longleftrightarrow> 0x0030 \<le> c \<and> c \<le> 0x0039"

definition digits_value :: "jstring \<Rightarrow> nat" where
  "digits_value ds = foldl (\<lambda>a c. 10 * a + (unat c - 48)) 0 ds"

text \<open>An optional sign in front of a numeric literal: whether it is a minus, and
  the rest of the text.\<close>

definition strip_sign :: "jstring \<Rightarrow> bool \<times> jstring" where
  "strip_sign s =
     (case s of
        [] \<Rightarrow> (False, [])
      | c # r \<Rightarrow> if c = 0x002D then (True, r) else if c = 0x002B then (False, r)
                else (False, s))"

text \<open>The ExponentPart that may follow a decimal literal (\<^verbatim>\<open>e\<close> or \<^verbatim>\<open>E\<close>, an
  optional sign, at least one digit); 0 when there is none.\<close>

definition exponent_part :: "jstring \<Rightarrow> int" where
  "exponent_part s =
     (case s of
        [] \<Rightarrow> 0
      | c # r \<Rightarrow>
          if c = 0x0065 \<or> c = 0x0045 then
            (let (neg, r') = strip_sign r; ds = takeWhile is_digit r'
             in if ds = [] then 0
                else if neg then - int (digits_value ds) else int (digits_value ds))
          else 0)"

definition scale10 :: "real \<Rightarrow> int \<Rightarrow> real" where
  "scale10 x e = (if 0 \<le> e then x * 10 ^ nat e else x / 10 ^ nat (- e))"

text \<open>
  \<^verbatim>\<open>parseFloat\<close> of ECMAScript: leading white space is skipped, the longest
  prefix that is a StrDecimalLiteral is read, and the result is \<^verbatim>\<open>NaN\<close> when there
  is no such prefix. The value of the literal is rounded to binary64 (ECMAScript
  lets an engine cut a literal of more than 20 significant digits first; the
  engines in use round the whole literal, as here).
\<close>

definition parseFloat :: "jstring \<Rightarrow> jsnum" where
  "parseFloat str =
     (let (neg, u) = strip_sign (dropWhile is_js_whitespace str)
      in if prefix (ascii ''Infinity'') u then (if neg then NegInf else PosInf)
         else
           (let ip = takeWhile is_digit u;
                r1 = dropWhile is_digit u;
                (fp, r2) = (case r1 of
                              [] \<Rightarrow> ([], [])
                            | c # r \<Rightarrow> if c = 0x002E
                                       then (takeWhile is_digit r, dropWhile is_digit r)
                                       else ([], r1))
            in if ip = [] \<and> fp = [] then NaN
               else
                 (let m = scale10 (of_nat (digits_value (ip @ fp)))
                                  (exponent_part r2 - int (length fp))
                  in binary64 (if neg then - m else m))))"

definition hex_digit :: "16 word \<Rightarrow> nat option" where
  "hex_digit c =
     (if 0x0030 \<le> c \<and> c \<le> 0x0039 then Some (unat c - 48)
      else if 0x0061 \<le> c \<and> c \<le> 0x0066 then Some (unat c - 87)
      else if 0x0041 \<le> c \<and> c \<le> 0x0046 then Some (unat c - 55)
      else None)"

text \<open>
  \<^verbatim>\<open>parseInt\<close> of ECMAScript with no radix: white space, a sign, an optional
  \<^verbatim>\<open>0x\<close> prefix selecting radix 16, then the digits; \<^verbatim>\<open>NaN\<close> when there is no digit.
\<close>

definition parseInt :: "jstring \<Rightarrow> jsnum" where
  "parseInt str =
     (let (neg, u) = strip_sign (dropWhile is_js_whitespace str);
          hex = (prefix (ascii ''0x'') u \<or> prefix (ascii ''0X'') u);
          z = (if hex then takeWhile (\<lambda>c. hex_digit c \<noteq> None) (drop 2 u)
               else takeWhile is_digit u);
          v = (if hex
               then foldl (\<lambda>a c. 16 * a + (case hex_digit c of Some d \<Rightarrow> d | None \<Rightarrow> 0)) 0 z
               else digits_value z)
      in if z = [] then NaN
         else binary64 (if neg then - of_nat v else of_nat v))"

section \<open>The sanitizer\<close>

text \<open>
  \<^verbatim>\<open>String.prototype.normalize\<close> belongs to the JavaScript runtime, not to the
  repository, and needs the tables of the Unicode standard: it is a parameter
  \<open>nfc\<close> of every function that reaches it. Its result is \<open>None\<close> when the
  call throws, which the source catches.
\<close>

type_synonym normalizer = "jstring \<Rightarrow> jstring option"

definition is_bom :: "16 word \<Rightarrow> bool" where
  "is_bom c \<longleftrightarrow> c = 0xFEFF"

text \<open>The class \<^verbatim>\<open>[\u0000-\u0008\u000B\u000C\u000E-\u001F\u007F]\<close>.\<close>

definition is_control :: "16 word \<Rightarrow> bool" where
  "is_control c \<longleftrightarrow>
     c \<le> 0x0008 \<or> c = 0x000B \<or> c = 0x000C \<or> (0x000E \<le> c \<and> c \<le> 0x001F) \<or> c = 0x007F"

text \<open>The class \<^verbatim>\<open>[\uD800-\uDFFF]\<close>; the expression has no \<^verbatim>\<open>u\<close> flag, so it
  matches every surrogate code unit, paired or not.\<close>

definition is_surrogate :: "16 word \<Rightarrow> bool" where
  "is_surrogate c \<longleftrightarrow> 0xD800 \<le> c \<and> c \<le> 0xDFFF"

text \<open>
  The replacement text: the one character U+FFFD, which the comment of the source
  calls the replacement char. (Read in a one-byte encoding, the literal shows as the
  three bytes EF BF BD of its UTF-8 form; none of the three is a byte-order mark, a
  control character or a surrogate either.)
\<close>

definition replacement :: jstring where
  "replacement = [0xFFFD]"

definition sanitizeString :: "normalizer \<Rightarrow> jstring option \<Rightarrow> jstring option" where
  "sanitizeString nfc str =
     (case str of
        None \<Rightarrow> None
      | Some s0 \<Rightarrow>
          (let s1 = filter (\<lambda>c. \<not> is_bom c) s0;
               s2 = map (\<lambda>c. if is_control c then 0x0020 else c) s1;
               s3 = concat (map (\<lambda>c. if is_surrogate c then replacement else [c]) s2);
               s4 = (case nfc s3 of Some t \<Rightarrow> t | None \<Rightarrow> s3)
           in if list_all is_js_whitespace s4 then None else Some s4))"

text \<open>
  The text that \<open>sanitizeString\<close> hands to the normalizer: the three replacements
  in a row. It only names a part of the definition above, for the proofs.
\<close>

definition scrub :: "jstring \<Rightarrow> jstring" where
  "scrub s0 =
     concat (map (\<lambda>c. if is_surrogate c then replacement else [c])
       (map (\<lambda>c. if is_control c then 0x0020 else c)
         (filter (\<lambda>c. \<not> is_bom c) s0)))"

section \<open>The output-line splitter\<close>

definition convertOutputToArray :: "normalizer \<Rightarrow> jstring option \<Rightarrow> jstring list option" where
  "convertOutputToArray nfc output =
     (if \<not> truthy output then None
      else case output of
             None \<Rightarrow> None
           | Some s \<Rightarrow>
               if trim s = [] then None
               else Some (List.map_filter
                            (\<lambda>line. if truthy line then line else None)
                            (map (\<lambda>line. sanitizeString nfc (Some (trim line)))
                                 (split_newline s))))"

section \<open>Data model\<close>

text \<open>The input records of \<^verbatim>\<open>types/junit.ts\<close>.\<close>

record JUnitRetryAttempt =
  jr_message :: "jstring option"
  jr_type :: "jstring option"
  jr_trace :: "jstring option"
  jr_systemOut :: "jstring option"
  jr_systemErr :: "jstring option"

record JUnitTestCase =
  suite :: jstring
  classname :: jstring
  name :: jstring
  time :: jstring
  hasFailure :: bool
  failureTrace :: "jstring option"
  failureMessage :: "jstring option"
  failureType :: "jstring option"
  hasError :: bool
  errorTrace :: "jstring option"
  errorMessage :: "jstring option"
  errorType :: "jstring option"
  file_path :: "jstring option"
  lineno :: "jstring option"
  skipped :: "bool option"
  flakyFailures :: "JUnitRetryAttempt list option"
  flakyErrors :: "JUnitRetryAttempt list option"
  rerunFailures :: "JUnitRetryAttempt list option"
  rerunErrors :: "JUnitRetryAttempt list option"
  systemOut :: "jstring option"
  systemErr :: "jstring option"

text \<open>The output records of the CTRF types; \<open>status\<close> is \<^verbatim>\<open>Test['status']\<close>.\<close>

datatype status = Passed | Failed | Skipped | Pending | Other

record RetryAttempt =
  attempt :: nat
  ra_status :: status
  ra_message :: "jstring option"
  ra_trace :: "jstring option"
  ra_stdout :: "jstring list option"
  ra_stderr :: "jstring list option"

record TestInfo =
  retryAttempts :: "RetryAttempt list"
  retryCount :: nat
  finalStatus :: status
  isFlaky :: bool

record Test =
  t_name :: jstring
  t_status :: status
  t_duration :: jsnum
  t_filePath :: "jstring option"
  t_line :: "jsnum option"
  t_message :: "jstring option"
  t_trace :: "jstring option"
  t_suite :: "jstring option"
  t_retries :: "nat option"
  t_retryAttempts :: "RetryAttempt list option"
  t_flaky :: "bool option"
  t_stdout :: "jstring list option"
  t_stderr :: "jstring list option"

record Summary =
  s_tests :: nat
  s_passed :: nat
  s_failed :: nat
  s_skipped :: nat
  s_pending :: nat
  s_other :: nat
  s_start :: nat
  s_stop :: nat
  s_flaky :: "nat option"

record Tool =
  tool_name :: jstring

record Results =
  r_tool :: Tool
  r_summary :: Summary
  r_tests :: "Test list"
  r_environment :: "(jstring \<times> jstring) list option"

record Report =
  reportFormat :: jstring
  specVersion :: jstring
  generatedBy :: jstring
  timestamp :: jstring
  results :: Results

section \<open>The retry reconciler\<close>

text \<open>An array is truthy whenever it is defined, also when it is empty.\<close>

definition defined_array :: "'a list option \<Rightarrow> bool" where
  "defined_array a = (a \<noteq> None)"

definition convertRetryAttempts ::
  "normalizer \<Rightarrow> JUnitRetryAttempt list \<Rightarrow> nat \<Rightarrow> RetryAttempt list" where
  "convertRetryAttempts nfc attempts startAttempt =
     map (\<lambda>(index, a).
            (let stdout = convertOutputToArray nfc (jr_systemOut a);
                 stderr = convertOutputToArray nfc (jr_systemErr a)
             in \<lparr> attempt = startAttempt + index,
                  ra_status = Failed,
                  ra_message = sanitizeString nfc (jr_message a),
                  ra_trace = sanitizeString nfc (jr_trace a),
                  ra_stdout = (if defined_array stdout then stdout else None),
                  ra_stderr = (if defined_array stderr then stderr else None) \<rparr>))
         (enumerate 0 attempts)"

text \<open>\<^verbatim>\<open>list && list.length > 0\<close> for an optional list, and its entries.\<close>

definition nonempty :: "'a list option \<Rightarrow> bool" where
  "nonempty l = (case l of None \<Rightarrow> False | Some xs \<Rightarrow> 0 < length xs)"

definition entries :: "'a list option \<Rightarrow> 'a list" where
  "entries l = (case l of None \<Rightarrow> [] | Some xs \<Rightarrow> xs)"

text \<open>
  One of the four blocks of \<^verbatim>\<open>processTestWithRetries\<close>: when the list is not
  empty its attempts are pushed, numbered from \<open>attemptNumber\<close>, which moves on
  by the length of the list. The state is the pair of the two local variables.
\<close>

definition pushAttempts ::
  "normalizer \<Rightarrow> JUnitRetryAttempt list option \<Rightarrow> RetryAttempt list \<times> nat
     \<Rightarrow> RetryAttempt list \<times> nat" where
  "pushAttempts nfc l st =
     (case st of (attempts, attemptNumber) \<Rightarrow>
        if nonempty l
        then (attempts @ convertRetryAttempts nfc (entries l) attemptNumber,
              attemptNumber + length (entries l))
        else (attempts, attemptNumber))"

definition processTestWithRetries :: "normalizer \<Rightarrow> JUnitTestCase \<Rightarrow> TestInfo" where
  "processTestWithRetries nfc testCase =
     (let st0 = ([], 1);
          st1 = pushAttempts nfc (flakyFailures testCase) st0;
          st2 = pushAttempts nfc (flakyErrors testCase) st1;
          hasFlaky = (nonempty (flakyFailures testCase) \<or> nonempty (flakyErrors testCase));
          st3 = (if \<not> hasFlaky then (fst st2, 2) else st2);
          st4 = pushAttempts nfc (rerunFailures testCase) st3;
          st5 = pushAttempts nfc (rerunErrors testCase) st4;
          hasRerun = (nonempty (rerunFailures testCase) \<or> nonempty (rerunErrors testCase));
          final =
            (if hasFlaky then Passed
             else if hasRerun then
               (if hasError testCase then Failed
                else if hasFailure testCase then Failed
                else Failed)
             else
               (if hasFailure testCase \<or> hasError testCase then Failed
                else if skipped testCase = Some True then Skipped
                else Passed))
      in \<lparr> retryAttempts = fst st5,
           retryCount = length (fst st5),
           finalStatus = final,
           isFlaky = hasFlaky \<rparr>)"

section \<open>The report assembler\<close>

definition convertToCTRFTest :: "normalizer \<Rightarrow> JUnitTestCase \<Rightarrow> bool \<Rightarrow> Test" where
  "convertToCTRFTest nfc testCase useSuiteName =
     (let testInfo = processTestWithRetries nfc testCase;
          durationMs =
            Math_round (js_times
              (parseFloat (if time testCase \<noteq> [] then time testCase else ascii ''0''))
              (Fin 1000));
          testName =
            (if useSuiteName
             then Some (template_str (sanitizeString nfc (Some (suite testCase)))
                        @ ascii '': ''
                        @ template_str (sanitizeString nfc (Some (name testCase))))
             else sanitizeString nfc (Some (name testCase)));
          line = (if truthy (lineno testCase)
                  then map_option parseInt (lineno testCase) else None);
          stdout = convertOutputToArray nfc (systemOut testCase);
          stderr = convertOutputToArray nfc (systemErr testCase)
      in \<lparr> t_name = or_default testName (ascii ''Unnamed Test''),
           t_status = finalStatus testInfo,
           t_duration = durationMs,
           t_filePath = file_path testCase,
           t_line = line,
           t_message =
             or_else (sanitizeString nfc
                        (or_else (failureMessage testCase) (errorMessage testCase)))
                     None,
           t_trace =
             or_else (sanitizeString nfc
                        (or_else (failureTrace testCase) (errorTrace testCase)))
                     None,
           t_suite = sanitizeString nfc (Some (suite testCase)),
           t_retries = (if 0 < retryCount testInfo then Some (retryCount testInfo) else None),
           t_retryAttempts =
             (if 0 < retryCount testInfo then Some (retryAttempts testInfo) else None),
           t_flaky = (if isFlaky testInfo then Some True else None),
           t_stdout = (if defined_array stdout then stdout else None),
           t_stderr = (if defined_array stderr then stderr else None) \<rparr>)"

text \<open>
  \<^verbatim>\<open>createCTRFReport\<close>. The time stamp \<^verbatim>\<open>new Date().toISOString()\<close> is read from
  the clock: it is the parameter \<open>now\<close>.
\<close>

definition createCTRFReport ::
  "normalizer \<Rightarrow> jstring \<Rightarrow> JUnitTestCase list \<Rightarrow> jstring option
     \<Rightarrow> (jstring \<times> jstring) list option \<Rightarrow> bool option \<Rightarrow> Report" where
  "createCTRFReport nfc now testCases toolName envProps useSuiteName =
     (let ctrfTests = map (\<lambda>testCase. convertToCTRFTest nfc testCase (useSuiteName = Some True))
                          testCases;
          passed = length (filter (\<lambda>test. t_status test = Passed) ctrfTests);
          failed = length (filter (\<lambda>test. t_status test = Failed) ctrfTests);
          skipped = length (filter (\<lambda>test. t_status test = Skipped) ctrfTests);
          pending = length (filter (\<lambda>test. t_status test = Pending) ctrfTests);
          other = length (filter (\<lambda>test. t_status test = Other) ctrfTests);
          flaky = length (filter (\<lambda>test. t_flaky test = Some True) ctrfTests);
          summary = \<lparr> s_tests = length ctrfTests,
                      s_passed = passed,
                      s_failed = failed,
                      s_skipped = skipped,
                      s_pending = pending,
                      s_other = other,
                      s_start = 0,
                      s_stop = 0,
                      s_flaky = (if 0 < flaky then Some flaky else None) \<rparr>;
          tool = \<lparr> tool_name = or_default toolName (ascii ''junit-to-ctrf'') \<rparr>
      in \<lparr> reportFormat = ascii ''CTRF'',
           specVersion = ascii ''0.0.0'',
           generatedBy = ascii ''junit-to-ctrf'',
           timestamp = now,
           results = \<lparr> r_tool = tool,
                       r_summary = summary,
                       r_tests = ctrfTests,
                       r_environment = (if nonempty envProps then envProps else None) \<rparr> \<rparr>)"

section \<open>Sample inputs\<close>

text \<open>
  A normalizer to evaluate the functions with. On a text whose code units are ASCII,
  U+FFFD or the CJK compatibility ideograph U+FA6C it is Unicode's NFC: the ideograph
  has the canonical singleton decomposition U+242EE, the surrogate pair D850 DEEE,
  and nothing else in such a text is changed. It is used on such texts only.
\<close>

definition nfc_fa6c :: normalizer where
  "nfc_fa6c s = Some (concat (map (\<lambda>c. if c = 0xFA6C then [0xD850, 0xDEEE] else [c]) s))"

definition sample_retry :: JUnitRetryAttempt where
  "sample_retry = \<lparr> jr_message = Some (ascii ''boom''), jr_type = None, jr_trace = None,
                     jr_systemOut = None, jr_systemErr = None \<rparr>"

definition other_retry :: JUnitRetryAttempt where
  "other_retry = \<lparr> jr_message = Some (ascii ''bang''), jr_type = None, jr_trace = None,
                    jr_systemOut = None, jr_systemErr = None \<rparr>"

definition sample_case :: JUnitTestCase where
  "sample_case =
     \<lparr> suite = ascii ''Suite1'', classname = ascii ''Class1'', name = ascii ''test1'',
       time = ascii ''0.5'', hasFailure = False, failureTrace = None,
       failureMessage = None, failureType = None, hasError = False, errorTrace = None,
       errorMessage = None, errorType = None, file_path = None, lineno = None,
       skipped = None, flakyFailures = None, flakyErrors = None, rerunFailures = None,
       rerunErrors = None, systemOut = None, systemErr = None \<rparr>"

definition sample_cases :: "JUnitTestCase list" where
  "sample_cases =
     [sample_case,
      sample_case\<lparr>flakyFailures := Some [sample_retry]\<rparr>,
      sample_case\<lparr>hasFailure := True\<rparr>]"

section \<open>Lemmas\<close>

subsection \<open>Attempt numbers\<close>

lemma nonempty_iff: "nonempty l \<longleftrightarrow> l \<noteq> None \<and> l \<noteq> Some []"
  by (cases l) (auto simp: nonempty_def)

lemma entries_nonempty: "\<not> nonempty l \<Longrightarrow> entries l = []"
  by (cases l) (auto simp: nonempty_def entries_def)

lemma attempts_convertRetryAttempts:
  "map attempt (convertRetryAttempts nfc as n) = [n ..< n + length as]"
proof -
  have "map attempt (convertRetryAttempts nfc as n) = map (\<lambda>p. n + fst p) (enumerate 0 as)"
    by (simp add: convertRetryAttempts_def Let_def case_prod_unfold)
  also have "\<dots> = map (\<lambda>i. i + n) (map fst (enumerate 0 as))"
    by (simp only: map_map comp_def add.commute)
  also have "\<dots> = map (\<lambda>i. i + n) [0 ..< length as]"
    by (simp only: map_fst_enumerate add_0)
  also have "\<dots> = [n ..< length as + n]"
    by (rule map_add_upt)
  finally show ?thesis by (simp only: add.commute)
qed

lemma length_convertRetryAttempts [simp]: "length (convertRetryAttempts nfc as n) = length as"
  by (simp add: convertRetryAttempts_def)

lemma convertRetryAttempts_Nil [simp]: "convertRetryAttempts nfc [] n = []"
  by (simp add: convertRetryAttempts_def)

lemma convertRetryAttempts_Cons:
  "convertRetryAttempts nfc (a # as) n =
     convertRetryAttempts nfc [a] n @ convertRetryAttempts nfc as (Suc n)"
  by (simp add: convertRetryAttempts_def enumerate_Suc_eq [of 0] case_prod_unfold comp_def)

lemma convertRetryAttempts_append:
  "convertRetryAttempts nfc (xs @ ys) n =
     convertRetryAttempts nfc xs n @ convertRetryAttempts nfc ys (n + length xs)"
proof (induction xs arbitrary: n)
  case Nil
  show ?case by simp
next
  case (Cons a xs)
  have "convertRetryAttempts nfc ((a # xs) @ ys) n =
          convertRetryAttempts nfc [a] n @ convertRetryAttempts nfc (xs @ ys) (Suc n)"
    by (simp add: convertRetryAttempts_Cons [of nfc a "xs @ ys"])
  also have "\<dots> = convertRetryAttempts nfc [a] n @ convertRetryAttempts nfc xs (Suc n)
                  @ convertRetryAttempts nfc ys (Suc n + length xs)"
    by (simp only: Cons.IH)
  also have "\<dots> = convertRetryAttempts nfc (a # xs) n
                  @ convertRetryAttempts nfc ys (n + length (a # xs))"
    by (simp add: convertRetryAttempts_Cons [of nfc a xs])
  finally show ?case .
qed

lemma messages_convertRetryAttempts:
  "map ra_message (convertRetryAttempts nfc as n) = map (\<lambda>a. sanitizeString nfc (jr_message a)) as"
proof -
  have "map ra_message (convertRetryAttempts nfc as n)
        = map (\<lambda>p. sanitizeString nfc (jr_message (snd p))) (enumerate 0 as)"
    by (simp add: convertRetryAttempts_def Let_def case_prod_unfold)
  also have "\<dots> = map (\<lambda>a. sanitizeString nfc (jr_message a)) (map snd (enumerate 0 as))"
    by (simp only: map_map comp_def)
  finally show ?thesis by simp
qed

lemma pushAttempts_eq:
  "pushAttempts nfc l (acc, n) =
     (acc @ convertRetryAttempts nfc (entries l) n, n + length (entries l))"
  by (simp add: pushAttempts_def entries_nonempty)

text \<open>The whole history: the entries of the four lists in their order, converted
  with consecutive numbers.\<close>

lemma history_processTestWithRetries:
  "retryAttempts (processTestWithRetries nfc tc) =
     convertRetryAttempts nfc
       (entries (flakyFailures tc) @ entries (flakyErrors tc)
        @ entries (rerunFailures tc) @ entries (rerunErrors tc))
       (if nonempty (flakyFailures tc) \<or> nonempty (flakyErrors tc) then 1 else 2)"
proof (cases "nonempty (flakyFailures tc) \<or> nonempty (flakyErrors tc)")
  case True
  then show ?thesis
    by (simp add: processTestWithRetries_def Let_def pushAttempts_eq
        convertRetryAttempts_append add.assoc)
next
  case False
  then have "entries (flakyFailures tc) = []" and "entries (flakyErrors tc) = []"
    by (simp_all add: entries_nonempty)
  with False show ?thesis
    by (simp add: processTestWithRetries_def Let_def pushAttempts_eq
        convertRetryAttempts_append)
qed

lemma retryCount_processTestWithRetries:
  "retryCount (processTestWithRetries nfc tc) =
     length (entries (flakyFailures tc)) + length (entries (flakyErrors tc))
     + length (entries (rerunFailures tc)) + length (entries (rerunErrors tc))"
proof -
  have "retryCount (processTestWithRetries nfc tc)
        = length (retryAttempts (processTestWithRetries nfc tc))"
    by (simp add: processTestWithRetries_def Let_def)
  then show ?thesis
    by (simp add: history_processTestWithRetries)
qed

lemma finalStatus_processTestWithRetries:
  "finalStatus (processTestWithRetries nfc tc) =
     (if nonempty (flakyFailures tc) \<or> nonempty (flakyErrors tc) then Passed
      else if nonempty (rerunFailures tc) \<or> nonempty (rerunErrors tc) then Failed
      else if hasFailure tc \<or> hasError tc then Failed
      else if skipped tc = Some True then Skipped
      else Passed)"
  by (simp add: processTestWithRetries_def Let_def)

lemma isFlaky_processTestWithRetries:
  "isFlaky (processTestWithRetries nfc tc) =
     (nonempty (flakyFailures tc) \<or> nonempty (flakyErrors tc))"
  by (simp add: processTestWithRetries_def Let_def)

lemma nonempty_mem:
  "(l \<notin> {None, Some []}) = nonempty l"
  "(l \<in> {None, Some []}) = (\<not> nonempty l)"
  by (simp_all add: nonempty_iff)

subsection \<open>The sanitizer\<close>

lemma sanitizeString_None: "sanitizeString nfc None = None"
  by (simp add: sanitizeString_def)



lemma sanitizeString_scrub:
  "sanitizeString nfc (Some s0) =
     (let s4 = (case nfc (scrub s0) of Some t \<Rightarrow> t | None \<Rightarrow> scrub s0)
      in if list_all is_js_whitespace s4 then None else Some s4)"
  by (simp only: sanitizeString_def scrub_def Let_def option.case)

lemma scrub_Nil: "scrub [] = []"
  by (simp add: scrub_def)

lemma scrub_Cons:
  "scrub (d # s0) =
     (if is_bom d then scrub s0
      else if is_control d then 0x0020 # scrub s0
      else if is_surrogate d then 0xFFFD # scrub s0
      else d # scrub s0)"
  by (simp add: scrub_def replacement_def is_surrogate_def)

lemma scrub_clean:
  "c \<in> set (scrub s0) \<Longrightarrow> \<not> is_bom c \<and> \<not> is_control c \<and> \<not> is_surrogate c"
proof (induction s0)
  case Nil
  then show ?case by (simp add: scrub_Nil)
next
  case (Cons d s0)
  have sp: "\<not> is_bom 0x0020 \<and> \<not> is_control 0x0020 \<and> \<not> is_surrogate 0x0020"
    by (simp add: is_bom_def is_control_def is_surrogate_def)
  have rp: "\<not> is_bom 0xFFFD \<and> \<not> is_control 0xFFFD \<and> \<not> is_surrogate 0xFFFD"
    by (simp add: is_bom_def is_control_def is_surrogate_def)
  from Cons sp rp show ?case
    by (auto simp: scrub_Cons split: if_splits)
qed

lemma scrub_fixed:
  assumes "\<forall>c\<in>set r. \<not> is_bom c \<and> \<not> is_control c \<and> \<not> is_surrogate c"
  shows "scrub r = r"
  using assms by (induction r) (simp_all add: scrub_Nil scrub_Cons)

lemma nfc_fa6c_idem: "nfc_fa6c t = Some u \<Longrightarrow> nfc_fa6c u = Some u"
proof -
  have same: "concat (map (\<lambda>c. if c = 0xFA6C then [0xD850, 0xDEEE] else [c]) v) = v"
    if "0xFA6C \<notin> set v" for v :: jstring
    using that by (induction v) auto
  assume "nfc_fa6c t = Some u"
  then have u: "u = concat (map (\<lambda>c. if c = 0xFA6C then [0xD850, 0xDEEE] else [c]) t)"
    by (simp add: nfc_fa6c_def)
  have "0xFA6C \<notin> set u"
    unfolding u by (induction t) auto
  then show ?thesis
    by (simp add: nfc_fa6c_def same)
qed

lemma nfc_fa6c_keeps:
  assumes "nfc_fa6c t = Some u" and "c \<in> set u" and "is_bom c \<or> is_control c"
  shows "c \<in> set t"
proof -
  from assms(1) have u: "u = concat (map (\<lambda>c. if c = 0xFA6C then [0xD850, 0xDEEE] else [c]) t)"
    by (simp add: nfc_fa6c_def)
  from assms(2) have "c = 0xD850 \<or> c = 0xDEEE \<or> c \<in> set t"
    unfolding u by (auto split: if_splits)
  moreover have "\<not> (is_bom 0xD850 \<or> is_control 0xD850)" "\<not> (is_bom 0xDEEE \<or> is_control 0xDEEE)"
    by (simp_all add: is_bom_def is_control_def)
  ultimately show ?thesis using assms(3) by auto
qed

lemmas sanitize_eval = sanitizeString_def is_bom_def is_control_def is_surrogate_def
  replacement_def is_js_whitespace_def nfc_fa6c_def Let_def

subsection \<open>The rounding to binary64\<close>

lemma bit_length_0 [simp]: "bit_length 0 = 0"
  by (simp add: bit_length.simps)

lemma bit_length_pos: "0 < n \<Longrightarrow> bit_length n = Suc (bit_length (n div 2))"
  by (subst bit_length.simps) simp

lemma bit_length_bounds:
  "0 < n \<Longrightarrow> (2::nat) ^ (bit_length n - 1) \<le> n \<and> n < 2 ^ bit_length n"
proof (induction n rule: bit_length.induct)
  case (1 n)
  have bl: "bit_length n = Suc (bit_length (n div 2))"
    using 1(2) by (rule bit_length_pos)
  show ?case
  proof (cases "n div 2 = 0")
    case True
    with 1(2) have "n = 1" by (simp add: div_eq_0_iff)
    then show ?thesis by (simp add: bit_length_pos)
  next
    case False
    with 1 have ih: "(2::nat) ^ (bit_length (n div 2) - 1) \<le> n div 2"
      "n div 2 < 2 ^ bit_length (n div 2)"
      by simp_all
    from False have "bit_length (n div 2) = Suc (bit_length (n div 2 div 2))"
      by (simp add: bit_length_pos)
    then have "(2::nat) ^ (bit_length n - 1) = 2 * 2 ^ (bit_length (n div 2) - 1)"
      by (simp add: bl)
    also have "\<dots> \<le> 2 * (n div 2)" using ih(1) by simp
    also have "\<dots> \<le> n" by simp
    finally have lo: "(2::nat) ^ (bit_length n - 1) \<le> n" .
    have "n < 2 * (n div 2) + 2" by presburger
    also have "\<dots> \<le> 2 * 2 ^ bit_length (n div 2)" using ih(2) by simp
    finally have "n < 2 ^ bit_length n" by (simp add: bl)
    with lo show ?thesis by simp
  qed
qed

lemma pow2_of_nat: "pow2 (int k) = 2 ^ k"
  by (simp add: pow2_def)

lemma pow2_neg_of_nat: "pow2 (- int k) = 1 / 2 ^ k"
  by (cases k) (simp_all add: pow2_def nat_add_distrib)

lemma exponent2_bounds:
  assumes "0 < a"
  shows "pow2 (exponent2 a) \<le> a \<and> a < pow2 (exponent2 a + 1)"
proof (cases "1 \<le> a")
  case True
  define n where "n = nat \<lfloor>a\<rfloor>"
  define k where "k = bit_length n"
  from True have n1: "0 < n" by (simp add: n_def)
  then have b: "(2::nat) ^ (k - 1) \<le> n" "n < 2 ^ k"
    using bit_length_bounds [of n] by (simp_all add: k_def)
  from n1 have k1: "0 < k" by (simp add: k_def bit_length_pos)
  have na: "real n \<le> a" "a < real n + 1"
    using True by (simp_all add: n_def)
  have e: "exponent2 a = int (k - 1)"
    using True k1 by (simp add: exponent2_def n_def k_def)
  have e1: "exponent2 a + 1 = int k"
    using e k1 by simp
  have "(2::real) ^ (k - 1) \<le> real n"
    using b(1) by (metis of_nat_le_iff of_nat_numeral of_nat_power)
  with na(1) have lo: "pow2 (exponent2 a) \<le> a"
    by (simp only: e pow2_of_nat)
  have "real n + 1 \<le> 2 ^ k"
    using b(2) by (metis Suc_leI of_nat_Suc of_nat_le_iff of_nat_numeral of_nat_power add.commute)
  with na(2) have "a < pow2 (exponent2 a + 1)"
    by (simp only: e1 pow2_of_nat)
  with lo show ?thesis by simp
next
  case False
  define y where "y = 1 / a"
  define n where "n = nat (\<lceil>y\<rceil> - 1)"
  define k where "k = bit_length n"
  from False assms have y1: "1 < y" by (simp add: y_def)
  then have c2: "2 \<le> \<lceil>y\<rceil>" by linarith
  then have n1: "0 < n" by (simp add: n_def)
  then have b: "(2::nat) ^ (k - 1) \<le> n" "n < 2 ^ k"
    using bit_length_bounds [of n] by (simp_all add: k_def)
  from n1 have k1: "0 < k" by (simp add: k_def bit_length_pos)
  have rn: "real n = of_int \<lceil>y\<rceil> - 1"
    using c2 by (simp add: n_def)
  have ny: "real n < y" "y \<le> real n + 1"
    unfolding rn by linarith+
  have e: "exponent2 a = - int k"
    using False by (simp add: exponent2_def y_def n_def k_def)
  have e1: "exponent2 a + 1 = - int (k - 1)"
    using e k1 by simp
  have p1: "(2::real) ^ (k - 1) \<le> real n"
    using b(1) by (metis of_nat_le_iff of_nat_numeral of_nat_power)
  have p2: "real n + 1 \<le> 2 ^ k"
    using b(2) by (metis Suc_leI of_nat_Suc of_nat_le_iff of_nat_numeral of_nat_power add.commute)
  have ay: "a = 1 / y" using assms by (simp add: y_def)
  have "1 / 2 ^ k \<le> 1 / y"
    using ny(2) p2 y1 by (intro divide_left_mono) (auto intro: mult_pos_pos)
  moreover have "pow2 (exponent2 a) = 1 / 2 ^ k"
    by (simp only: e pow2_neg_of_nat)
  ultimately have lo: "pow2 (exponent2 a) \<le> a"
    using ay by simp
  have "(2::real) ^ (k - 1) < y" using p1 ny(1) by linarith
  then have "1 / y < 1 / 2 ^ (k - 1)"
    using y1 by (simp add: field_simps)
  moreover have "pow2 (exponent2 a + 1) = 1 / 2 ^ (k - 1)"
    by (simp only: e1 pow2_neg_of_nat)
  ultimately have "a < pow2 (exponent2 a + 1)"
    using ay by simp
  with lo show ?thesis by simp
qed

lemma pow2_pos: "0 < pow2 e"
  by (simp add: pow2_def)

lemma quantum_pos: "0 < quantum a"
  by (simp add: quantum_def pow2_pos)

lemma round_half_even_near: "\<bar>real_of_int (round_half_even y) - y\<bar> \<le> 1 / 2"
  by (simp add: round_half_even_def tie_to_even_def)

lemma nearest_near:
  assumes "0 < q"
  shows "\<bar>nearest a q - a\<bar> \<le> q / 2"
proof -
  have "nearest a q - a = (real_of_int (round_half_even (a / q)) - a / q) * q"
    using assms by (simp add: nearest_def field_simps)
  then have "\<bar>nearest a q - a\<bar> = \<bar>real_of_int (round_half_even (a / q)) - a / q\<bar> * q"
    using assms by (simp add: abs_mult)
  also have "\<dots> \<le> 1 / 2 * q"
    using assms round_half_even_near [of "a / q"] by (intro mult_right_mono) simp_all
  finally show ?thesis by simp
qed

text \<open>A finite result of the rounding is a multiple of the quantum, at most half a
  quantum away from the number rounded.\<close>

lemma binary64_near:
  assumes "binary64 x = Fin y"
  shows "\<bar>y - x\<bar> \<le> quantum \<bar>x\<bar> / 2 \<and> (\<exists>m::int. y = of_int m * quantum \<bar>x\<bar>)"
proof (cases "x = 0")
  case True
  with assms have "y = 0" by (simp add: binary64_def)
  with True quantum_pos [of 0] show ?thesis
    by (auto intro: exI [of _ 0])
next
  case False
  let ?r = "nearest \<bar>x\<bar> (quantum \<bar>x\<bar>)"
  from assms False have y: "y = (if x < 0 then - ?r else ?r)"
    by (simp add: binary64_def finite_or_infinity_def split: if_splits)
  have near: "\<bar>?r - \<bar>x\<bar>\<bar> \<le> quantum \<bar>x\<bar> / 2"
    using quantum_pos by (rule nearest_near)
  have "\<bar>y - x\<bar> = \<bar>?r - \<bar>x\<bar>\<bar>"
    using y by (cases "x < 0") simp_all
  with near have a: "\<bar>y - x\<bar> \<le> quantum \<bar>x\<bar> / 2" by simp
  have "y = of_int (if x < 0 then - round_half_even (\<bar>x\<bar> / quantum \<bar>x\<bar>)
                    else round_half_even (\<bar>x\<bar> / quantum \<bar>x\<bar>)) * quantum \<bar>x\<bar>"
    using y by (simp add: nearest_def)
  then have "\<exists>m::int. y = of_int m * quantum \<bar>x\<bar>" by blast
  with a show ?thesis by simp
qed



subsection \<open>The fields of a converted test and of the summary\<close>

lemma t_status_convertToCTRFTest:
  "t_status (convertToCTRFTest nfc tc u) = finalStatus (processTestWithRetries nfc tc)"
  by (simp add: convertToCTRFTest_def Let_def)

lemma t_flaky_convertToCTRFTest:
  "t_flaky (convertToCTRFTest nfc tc u) =
     (if isFlaky (processTestWithRetries nfc tc) then Some True else None)"
  by (simp add: convertToCTRFTest_def Let_def)

lemma t_duration_convertToCTRFTest:
  "t_duration (convertToCTRFTest nfc tc u) =
     Math_round (js_times
       (parseFloat (if time tc \<noteq> [] then time tc else ascii ''0'')) (Fin 1000))"
  by (simp add: convertToCTRFTest_def Let_def)



lemma t_stdout_convertToCTRFTest:
  "t_stdout (convertToCTRFTest nfc tc u) = convertOutputToArray nfc (systemOut tc)"
  by (simp add: convertToCTRFTest_def Let_def defined_array_def)

lemmas binary64_eval = binary64_def exponent2_def pow2_def round_half_even_def tie_to_even_def
  quantum_def nearest_def finite_or_infinity_def bit_length.simps

lemmas parse_eval = parseFloat_def strip_sign_def ascii_def is_js_whitespace_def is_digit_def
  digits_value_def exponent_part_def scale10_def Let_def

lemma binary64_zero [simp]: "binary64 0 = Fin 0"
  by (simp add: binary64_def)

lemma parseFloat_zero: "parseFloat (ascii ''0'') = Fin 0"
  by (simp add: parse_eval)

text \<open>The durations that the tests of the repository expect for their times, and
  a time whose product with 1000 is rounded to a number below the half.\<close>

lemma durations_of_sample_times:
  "Math_round (js_times (parseFloat (ascii ''0.5'')) (Fin 1000)) = Fin 500"
  "Math_round (js_times (parseFloat (ascii ''1.2'')) (Fin 1000)) = Fin 1200"
  "Math_round (js_times (parseFloat (ascii ''3.456'')) (Fin 1000)) = Fin 3456"
  "Math_round (js_times (parseFloat (ascii ''0.5005'')) (Fin 1000)) = Fin 500"
  by (simp_all add: parse_eval) (simp_all add: binary64_eval)

lemma finalStatus_three:
  "finalStatus (processTestWithRetries nfc tc) \<in> {Passed, Failed, Skipped}"
  by (simp add: finalStatus_processTestWithRetries)

lemma isFlaky_Passed:
  "isFlaky (processTestWithRetries nfc tc) \<Longrightarrow> finalStatus (processTestWithRetries nfc tc) = Passed"
  by (simp add: finalStatus_processTestWithRetries isFlaky_processTestWithRetries)

lemma count_by_status:
  assumes "\<forall>x\<in>set xs. f x \<in> {Passed, Failed, Skipped}"
  shows "length (filter (\<lambda>x. f x = Passed) xs) + length (filter (\<lambda>x. f x = Failed) xs)
           + length (filter (\<lambda>x. f x = Skipped) xs) = length xs
         \<and> filter (\<lambda>x. f x = Pending) xs = [] \<and> filter (\<lambda>x. f x = Other) xs = []"
  using assms by (induction xs) auto

lemma length_filter_mono:
  assumes "\<forall>x\<in>set xs. P x \<longrightarrow> Q x"
  shows "length (filter P xs) \<le> length (filter Q xs)"
  using assms by (induction xs) auto

lemma summary_createCTRFReport:
  "r_summary (results (createCTRFReport nfc now tcs tn env u)) =
     \<lparr> s_tests = length tcs,
       s_passed = length (filter (\<lambda>tc. finalStatus (processTestWithRetries nfc tc) = Passed) tcs),
       s_failed = length (filter (\<lambda>tc. finalStatus (processTestWithRetries nfc tc) = Failed) tcs),
       s_skipped = length (filter (\<lambda>tc. finalStatus (processTestWithRetries nfc tc) = Skipped) tcs),
       s_pending = length (filter (\<lambda>tc. finalStatus (processTestWithRetries nfc tc) = Pending) tcs),
       s_other = length (filter (\<lambda>tc. finalStatus (processTestWithRetries nfc tc) = Other) tcs),
       s_start = 0,
       s_stop = 0,
       s_flaky = (if 0 < length (filter (\<lambda>tc. isFlaky (processTestWithRetries nfc tc)) tcs)
                  then Some (length (filter (\<lambda>tc. isFlaky (processTestWithRetries nfc tc)) tcs))
                  else None) \<rparr>"
  by (simp add: createCTRFReport_def Let_def filter_map comp_def
      t_status_convertToCTRFTest t_flaky_convertToCTRFTest)

lemma tests_createCTRFReport:
  "r_tests (results (createCTRFReport nfc now tcs tn env u)) =
     map (\<lambda>tc. convertToCTRFTest nfc tc (u = Some True)) tcs"
  by (simp add: createCTRFReport_def Let_def)

lemma flaky_tests_createCTRFReport:
  "filter (\<lambda>t. t_flaky t = Some True) (r_tests (results (createCTRFReport nfc now tcs tn env u)))
   = map (\<lambda>tc. convertToCTRFTest nfc tc (u = Some True))
       (filter (\<lambda>tc. isFlaky (processTestWithRetries nfc tc)) tcs)"
  by (simp add: tests_createCTRFReport filter_map comp_def t_flaky_convertToCTRFTest)

lemmas report_eval = summary_createCTRFReport finalStatus_processTestWithRetries
  isFlaky_processTestWithRetries nonempty_def sample_cases_def sample_case_def

section \<open>Claims\<close>

subsection \<open>C1: the priority of the final status\<close>

text \<open>
  Claim C1. The final status of the retry reconciler follows the priority: when
  \<open>flakyFailures\<close> or \<open>flakyErrors\<close> has an entry the status is passed, also when a
  rerun list has entries; otherwise, when \<open>rerunFailures\<close> or \<open>rerunErrors\<close> has an
  entry the status is failed, whatever \<open>hasFailure\<close> and \<open>hasError\<close> are; otherwise
  it is failed when \<open>hasFailure\<close> or \<open>hasError\<close> is set, else skipped when
  \<open>skipped\<close> is set, else passed.
\<close>

theorem final_status_priority:
  "((flakyFailures tc \<notin> {None, Some []} \<or> flakyErrors tc \<notin> {None, Some []})
      \<longrightarrow> finalStatus (processTestWithRetries nfc tc) = Passed)
   \<and> (flakyFailures tc \<in> {None, Some []} \<and> flakyErrors tc \<in> {None, Some []}
      \<and> (rerunFailures tc \<notin> {None, Some []} \<or> rerunErrors tc \<notin> {None, Some []})
      \<longrightarrow> finalStatus (processTestWithRetries nfc tc) = Failed)
   \<and> (flakyFailures tc \<in> {None, Some []} \<and> flakyErrors tc \<in> {None, Some []}
      \<and> rerunFailures tc \<in> {None, Some []} \<and> rerunErrors tc \<in> {None, Some []}
      \<longrightarrow> finalStatus (processTestWithRetries nfc tc) =
            (if hasFailure tc \<or> hasError tc then Failed
             else if skipped tc = Some True then Skipped
             else Passed))"
  unfolding nonempty_mem by (simp add: finalStatus_processTestWithRetries)

text \<open>The three branches at concrete test cases: flaky with a rerun, a rerun only,
  and a skipped test.\<close>

theorem final_status_priority_witness:
  "(flakyFailures (sample_case\<lparr>flakyFailures := Some [sample_retry], rerunErrors := Some [sample_retry]\<rparr>)
      \<notin> {None, Some []}
    \<and> finalStatus (processTestWithRetries nfc_fa6c
         (sample_case\<lparr>flakyFailures := Some [sample_retry], rerunErrors := Some [sample_retry]\<rparr>)) = Passed)
   \<and> finalStatus (processTestWithRetries nfc_fa6c
         (sample_case\<lparr>rerunFailures := Some [sample_retry]\<rparr>)) = Failed
   \<and> finalStatus (processTestWithRetries nfc_fa6c (sample_case\<lparr>skipped := Some True\<rparr>)) = Skipped"
  using final_status_priority [of "sample_case\<lparr>flakyFailures := Some [sample_retry], rerunErrors := Some [sample_retry]\<rparr>" nfc_fa6c]
    final_status_priority [of "sample_case\<lparr>rerunFailures := Some [sample_retry]\<rparr>" nfc_fa6c]
    final_status_priority [of "sample_case\<lparr>skipped := Some True\<rparr>" nfc_fa6c]
  by (simp add: sample_case_def)

subsection \<open>C2: attempt numbers\<close>

text \<open>
  Claim C2 says that the attempt numbers of every history start at 1. A test case
  with reruns and no flaky record is numbered from 2: one rerun failure and one
  rerun error give the numbers 2 and 3.
\<close>

theorem attempt_numbers_counterexample:
  "map attempt (retryAttempts (processTestWithRetries nfc_fa6c
      (sample_case\<lparr>hasFailure := True, rerunFailures := Some [sample_retry],
                    rerunErrors := Some [sample_retry]\<rparr>))) = [2, 3]"
  by (simp add: history_processTestWithRetries attempts_convertRetryAttempts
      sample_case_def nonempty_def entries_def upt_rec)

text \<open>
  Claim C2, amended. The history of a test holds one attempt per entry of the four
  lists, in the order \<open>flakyFailures\<close>, \<open>flakyErrors\<close>, \<open>rerunFailures\<close>,
  \<open>rerunErrors\<close> and in the order of the entries within each list; the attempt
  numbers are consecutive along the history, and they start at 1 when a flaky list
  has an entry and at 2 when none has.
\<close>

theorem attempt_numbers_consecutive:
  "(let first = (if flakyFailures tc \<notin> {None, Some []} \<or> flakyErrors tc \<notin> {None, Some []}
                 then 1 else 2);
        records = entries (flakyFailures tc) @ entries (flakyErrors tc)
                  @ entries (rerunFailures tc) @ entries (rerunErrors tc);
        history = retryAttempts (processTestWithRetries nfc tc)
    in history = convertRetryAttempts nfc records first
       \<and> map attempt history = [first ..< first + length records]
       \<and> map ra_message history = map (\<lambda>a. sanitizeString nfc (jr_message a)) records)"
  unfolding nonempty_mem Let_def
  by (simp add: history_processTestWithRetries attempts_convertRetryAttempts
      messages_convertRetryAttempts)

text \<open>A test with an entry in each list, and one with reruns only.\<close>

theorem attempt_numbers_consecutive_witness:
  "map attempt (retryAttempts (processTestWithRetries nfc_fa6c
      (sample_case\<lparr>flakyFailures := Some [sample_retry], flakyErrors := Some [other_retry],
                    rerunFailures := Some [other_retry], rerunErrors := Some [sample_retry]\<rparr>)))
     = [1, 2, 3, 4]
   \<and> map ra_message (retryAttempts (processTestWithRetries nfc_fa6c
      (sample_case\<lparr>flakyFailures := Some [sample_retry], flakyErrors := Some [other_retry],
                    rerunFailures := Some [other_retry], rerunErrors := Some [sample_retry]\<rparr>)))
     = [Some (ascii ''boom''), Some (ascii ''bang''), Some (ascii ''bang''), Some (ascii ''boom'')]
   \<and> map attempt (retryAttempts (processTestWithRetries nfc_fa6c
      (sample_case\<lparr>rerunFailures := Some [other_retry], rerunErrors := Some [sample_retry]\<rparr>)))
     = [2, 3]
   \<and> map ra_message (retryAttempts (processTestWithRetries nfc_fa6c
      (sample_case\<lparr>rerunFailures := Some [other_retry], rerunErrors := Some [sample_retry]\<rparr>)))
     = [Some (ascii ''bang''), Some (ascii ''boom'')]"
proof -
  let ?a = "sample_case\<lparr>flakyFailures := Some [sample_retry], flakyErrors := Some [other_retry],
                    rerunFailures := Some [other_retry], rerunErrors := Some [sample_retry]\<rparr>"
  let ?b = "sample_case\<lparr>rerunFailures := Some [other_retry], rerunErrors := Some [sample_retry]\<rparr>"
  have boom: "sanitizeString nfc_fa6c (jr_message sample_retry) = Some (ascii ''boom'')"
    by (simp add: sample_retry_def sanitize_eval ascii_def)
  have bang: "sanitizeString nfc_fa6c (jr_message other_retry) = Some (ascii ''bang'')"
    by (simp add: other_retry_def sanitize_eval ascii_def)
  have fa: "(if flakyFailures ?a \<notin> {None, Some []} \<or> flakyErrors ?a \<notin> {None, Some []}
             then 1 else 2) = (1::nat)"
    by simp
  have fb: "(if flakyFailures ?b \<notin> {None, Some []} \<or> flakyErrors ?b \<notin> {None, Some []}
             then 1 else 2) = (2::nat)"
    by (simp add: sample_case_def)
  have ra: "entries (flakyFailures ?a) @ entries (flakyErrors ?a)
            @ entries (rerunFailures ?a) @ entries (rerunErrors ?a)
            = [sample_retry, other_retry, other_retry, sample_retry]"
    by (simp add: entries_def)
  have rb: "entries (flakyFailures ?b) @ entries (flakyErrors ?b)
            @ entries (rerunFailures ?b) @ entries (rerunErrors ?b)
            = [other_retry, sample_retry]"
    by (simp add: entries_def sample_case_def)
  have up: "[1 ..< 1 + length [sample_retry, other_retry, other_retry, sample_retry]] = [1, 2, 3, 4]"
    "[2 ..< 2 + length [other_retry, sample_retry]] = [2, 3]"
    by (simp_all add: upt_rec)
  note a = attempt_numbers_consecutive [of ?a nfc_fa6c, unfolded Let_def fa ra up]
  note b = attempt_numbers_consecutive [of ?b nfc_fa6c, unfolded Let_def fb rb up]
  from a [THEN conjunct2] b [THEN conjunct2] show ?thesis
    by (simp add: boom bang)
qed

subsection \<open>C3: the name of a test qualified by its suite\<close>




subsection \<open>C4: output whose lines are all dropped\<close>

text \<open>
  Claim C4 says that \<open>convertOutputToArray\<close> returns \<^verbatim>\<open>undefined\<close>, never an empty
  array, when no line is left. The guard of the function looks at the text before
  the lines are sanitized: the one-character text DEL (U+007F) is not white space,
  so it passes the guard, its only line sanitizes to \<^verbatim>\<open>undefined\<close> and is dropped,
  and the result is the empty array, which \<open>convertToCTRFTest\<close> attaches as
  \<open>stdout\<close>.
\<close>

theorem output_lines_empty_array:
  "convertOutputToArray nfc_fa6c (Some [0x007F]) = Some []
   \<and> t_stdout (convertToCTRFTest nfc_fa6c (sample_case\<lparr>systemOut := Some [0x007F]\<rparr>) False) = Some []"
  by (simp add: t_stdout_convertToCTRFTest convertOutputToArray_def truthy_def trim_def
      sanitize_eval)

subsection \<open>C5: the duration of a test with no usable time\<close>

text \<open>
  Claim C5 says that a time that is absent or not a number gives the duration 0.
  A time that \<open>parseFloat\<close> cannot read gives \<^verbatim>\<open>NaN\<close>, which the multiplication
  and \<^verbatim>\<open>Math.round\<close> pass on.
\<close>

theorem duration_unparsable_counterexample:
  "parseFloat (ascii ''abc'') = NaN
   \<and> t_duration (convertToCTRFTest nfc_fa6c (sample_case\<lparr>time := ascii ''abc''\<rparr>) False) = NaN
   \<and> t_duration (convertToCTRFTest nfc_fa6c (sample_case\<lparr>time := ascii ''abc''\<rparr>) False) \<noteq> Fin 0"
  by (simp add: t_duration_convertToCTRFTest sample_case_def parse_eval)

text \<open>
  Claim C5, amended. The field \<open>time\<close> is a string; when it is empty the duration
  is 0, and when it is not empty and \<open>parseFloat\<close> reads no number from it the
  duration is \<^verbatim>\<open>NaN\<close>. No error is raised in either case.
\<close>

theorem duration_without_time:
  "(time tc = [] \<longrightarrow> t_duration (convertToCTRFTest nfc tc u) = Fin 0)
   \<and> (time tc \<noteq> [] \<and> parseFloat (time tc) = NaN
        \<longrightarrow> t_duration (convertToCTRFTest nfc tc u) = NaN)"
  by (simp add: t_duration_convertToCTRFTest parseFloat_zero binary64_def)

theorem duration_without_time_witness:
  "time (sample_case\<lparr>time := []\<rparr>) = []
   \<and> t_duration (convertToCTRFTest nfc_fa6c (sample_case\<lparr>time := []\<rparr>) True) = Fin 0
   \<and> time (sample_case\<lparr>time := ascii ''n/a''\<rparr>) \<noteq> []
   \<and> parseFloat (time (sample_case\<lparr>time := ascii ''n/a''\<rparr>)) = NaN
   \<and> t_duration (convertToCTRFTest nfc_fa6c (sample_case\<lparr>time := ascii ''n/a''\<rparr>) True) = NaN"
proof -
  have a: "time (sample_case\<lparr>time := []\<rparr>) = []" by simp
  have b: "time (sample_case\<lparr>time := ascii ''n/a''\<rparr>) \<noteq> []" by (simp add: ascii_def)
  have c: "parseFloat (time (sample_case\<lparr>time := ascii ''n/a''\<rparr>)) = NaN"
    by (simp add: parse_eval)
  from duration_without_time [of "sample_case\<lparr>time := []\<rparr>" nfc_fa6c True]
    duration_without_time [of "sample_case\<lparr>time := ascii ''n/a''\<rparr>" nfc_fa6c True] a b c
  show ?thesis by simp
qed

subsection \<open>C6: the sign of the duration\<close>




subsection \<open>C7: the sanitizer applied twice\<close>

text \<open>
  Claim C7 says that sanitizing a sanitized text changes nothing. The surrogates are
  replaced before the text is normalized, and normalization can bring surrogates
  back: U+FA6C is normalized to the pair D850 DEEE, which a second call replaces by
  two U+FFFD.
\<close>

theorem sanitizeString_twice_counterexample:
  "sanitizeString nfc_fa6c (Some [0xFA6C]) = Some [0xD850, 0xDEEE]
   \<and> sanitizeString nfc_fa6c (sanitizeString nfc_fa6c (Some [0xFA6C])) = Some [0xFFFD, 0xFFFD]
   \<and> sanitizeString nfc_fa6c (sanitizeString nfc_fa6c (Some [0xFA6C]))
       \<noteq> sanitizeString nfc_fa6c (Some [0xFA6C])"
  by (simp add: sanitize_eval)

text \<open>
  Claim C7, amended. \<open>sanitizeString\<close> returns a value on every input (the one call
  that can throw is caught) and maps \<^verbatim>\<open>undefined\<close> to \<^verbatim>\<open>undefined\<close>. For a normalizer
  that is idempotent (normalizing a normalized text gives that text) and whose
  result holds a byte-order mark or a control character only where its argument
  holds it, as NFC is and does, sanitizing a result \<open>r\<close> again gives \<open>r\<close> whenever
  \<open>r\<close> holds no surrogate code unit.
\<close>

theorem sanitizeString_twice:
  assumes idem: "\<And>t u. nfc t = Some u \<Longrightarrow> nfc u = Some u"
    and keeps: "\<And>t u c. nfc t = Some u \<Longrightarrow> c \<in> set u \<Longrightarrow> is_bom c \<or> is_control c \<Longrightarrow> c \<in> set t"
    and first: "sanitizeString nfc (Some s) = Some r"
    and nosurr: "\<forall>c\<in>set r. \<not> is_surrogate c"
  shows "sanitizeString nfc None = None \<and> sanitizeString nfc (Some r) = Some r"
proof
  show "sanitizeString nfc None = None"
    by (simp add: sanitizeString_def)
next
  from first have r: "r = (case nfc (scrub s) of Some t \<Rightarrow> t | None \<Rightarrow> scrub s)"
    and nws: "\<not> list_all is_js_whitespace r"
    by (auto simp: sanitizeString_scrub Let_def split: if_splits)
  have clean: "\<forall>c\<in>set r. \<not> is_bom c \<and> \<not> is_control c \<and> \<not> is_surrogate c"
  proof (cases "nfc (scrub s)")
    case None
    with r have "r = scrub s" by simp
    then show ?thesis using scrub_clean by blast
  next
    case (Some t)
    with r have "r = t" by simp
    with Some have n: "nfc (scrub s) = Some r" by simp
    show ?thesis
    proof
      fix c assume c: "c \<in> set r"
      have "\<not> (is_bom c \<or> is_control c)"
      proof
        assume "is_bom c \<or> is_control c"
        with n c have "c \<in> set (scrub s)" by (rule keeps)
        then have "\<not> is_bom c \<and> \<not> is_control c \<and> \<not> is_surrogate c" by (rule scrub_clean)
        with \<open>is_bom c \<or> is_control c\<close> show False by simp
      qed
      with nosurr c show "\<not> is_bom c \<and> \<not> is_control c \<and> \<not> is_surrogate c" by simp
    qed
  qed
  then have fixed: "scrub r = r" by (rule scrub_fixed)
  have "(case nfc r of Some t \<Rightarrow> t | None \<Rightarrow> r) = r"
  proof (cases "nfc (scrub s)")
    case None
    with r have "r = scrub s" by simp
    with None show ?thesis by simp
  next
    case (Some t)
    with r have "nfc (scrub s) = Some r" by simp
    then have "nfc r = Some r" by (rule idem)
    then show ?thesis by simp
  qed
  with fixed nws show "sanitizeString nfc (Some r) = Some r"
    by (simp add: sanitizeString_scrub Let_def split: option.splits)
qed

theorem sanitizeString_twice_witness:
  "sanitizeString nfc_fa6c (Some [0x0061, 0x0000, 0x0062]) = Some [0x0061, 0x0020, 0x0062]
   \<and> \<not> is_surrogate 0x0061 \<and> \<not> is_surrogate 0x0020 \<and> \<not> is_surrogate 0x0062
   \<and> sanitizeString nfc_fa6c None = None
   \<and> sanitizeString nfc_fa6c (Some [0x0061, 0x0020, 0x0062]) = Some [0x0061, 0x0020, 0x0062]"
proof -
  have first: "sanitizeString nfc_fa6c (Some [0x0061, 0x0000, 0x0062]) = Some [0x0061, 0x0020, 0x0062]"
    by (simp add: sanitize_eval)
  have nosurr: "\<forall>c\<in>set [0x0061, 0x0020, 0x0062 :: 16 word]. \<not> is_surrogate c"
    by (simp add: is_surrogate_def)
  from sanitizeString_twice [of nfc_fa6c, OF nfc_fa6c_idem nfc_fa6c_keeps first nosurr] first nosurr
  show ?thesis by (simp add: is_surrogate_def)
qed

subsection \<open>C8: the counts of the summary\<close>

text \<open>
  Claim C8. For every list of test cases, the empty one too, the counts of the
  summary for passed, failed, skipped, pending and other tests add up to the number
  of tests; the counts of pending and other tests are 0; and the summary has a
  flaky count exactly when some produced test carries the flaky flag, in which case
  it is the number of those tests.
\<close>

theorem summary_counts:
  fixes nfc now tcs tn env u
  defines "sm \<equiv> r_summary (results (createCTRFReport nfc now tcs tn env u))"
    and "ts \<equiv> r_tests (results (createCTRFReport nfc now tcs tn env u))"
  shows "s_passed sm + s_failed sm + s_skipped sm + s_pending sm + s_other sm = s_tests sm
     \<and> s_tests sm = length ts
     \<and> s_pending sm = 0 \<and> s_other sm = 0
     \<and> (s_flaky sm \<noteq> None \<longleftrightarrow> (\<exists>t\<in>set ts. t_flaky t = Some True))
     \<and> (\<forall>n. s_flaky sm = Some n \<longrightarrow> n = length (filter (\<lambda>t. t_flaky t = Some True) ts))"
proof -
  let ?f = "\<lambda>tc. finalStatus (processTestWithRetries nfc tc)"
  have "\<forall>x\<in>set tcs. ?f x \<in> {Passed, Failed, Skipped}"
    using finalStatus_three by blast
  then have cnt: "length (filter (\<lambda>x. ?f x = Passed) tcs) + length (filter (\<lambda>x. ?f x = Failed) tcs)
           + length (filter (\<lambda>x. ?f x = Skipped) tcs) = length tcs
         \<and> filter (\<lambda>x. ?f x = Pending) tcs = [] \<and> filter (\<lambda>x. ?f x = Other) tcs = []"
    by (rule count_by_status)
  have fl: "length (filter (\<lambda>t. t_flaky t = Some True) ts)
            = length (filter (\<lambda>tc. isFlaky (processTestWithRetries nfc tc)) tcs)"
    by (simp add: ts_def flaky_tests_createCTRFReport)
  have ex: "(\<exists>t\<in>set ts. t_flaky t = Some True)
            \<longleftrightarrow> 0 < length (filter (\<lambda>t. t_flaky t = Some True) ts)"
    by (simp add: filter_empty_conv)
  have len: "length ts = length tcs"
    by (simp add: ts_def tests_createCTRFReport)
  show ?thesis
    using cnt by (simp add: ex fl len sm_def summary_createCTRFReport)
qed

theorem summary_counts_witness:
  "s_tests (r_summary (results (createCTRFReport nfc_fa6c [] sample_cases None None None))) = 3
   \<and> s_passed (r_summary (results (createCTRFReport nfc_fa6c [] sample_cases None None None))) = 2
   \<and> s_failed (r_summary (results (createCTRFReport nfc_fa6c [] sample_cases None None None))) = 1
   \<and> s_skipped (r_summary (results (createCTRFReport nfc_fa6c [] sample_cases None None None))) = 0
   \<and> s_flaky (r_summary (results (createCTRFReport nfc_fa6c [] sample_cases None None None))) = Some 1
   \<and> length (filter (\<lambda>t. t_flaky t = Some True)
        (r_tests (results (createCTRFReport nfc_fa6c [] sample_cases None None None)))) = 1
   \<and> r_summary (results (createCTRFReport nfc_fa6c [] [] None None None))
       = \<lparr> s_tests = 0, s_passed = 0, s_failed = 0, s_skipped = 0, s_pending = 0, s_other = 0,
           s_start = 0, s_stop = 0, s_flaky = None \<rparr>"
  using summary_counts [where nfc = nfc_fa6c and now = "[]" and tcs = sample_cases and tn = None
      and env = None and u = None]
    summary_counts [where nfc = nfc_fa6c and now = "[]" and tcs = "[]" and tn = None
      and env = None and u = None]
  by (simp add: report_eval flaky_tests_createCTRFReport)

subsection \<open>C9: the message falls back by truthiness\<close>



subsection \<open>C10: a flaky test has passed\<close>

text \<open>
  Claim C10. A converted test that carries the flaky flag has the status passed;
  so in every report the flaky count of the summary, when there is one, is at most
  the count of passed tests.
\<close>

theorem flaky_is_passed:
  "(t_flaky (convertToCTRFTest nfc tc b) = Some True
      \<longrightarrow> t_status (convertToCTRFTest nfc tc b) = Passed)
   \<and> (\<forall>n. s_flaky (r_summary (results (createCTRFReport nfc now tcs tn env u))) = Some n
          \<longrightarrow> n \<le> s_passed (r_summary (results (createCTRFReport nfc now tcs tn env u))))"
proof -
  have "length (filter (\<lambda>tc. isFlaky (processTestWithRetries nfc tc)) tcs)
        \<le> length (filter (\<lambda>tc. finalStatus (processTestWithRetries nfc tc) = Passed) tcs)"
    by (rule length_filter_mono) (simp add: isFlaky_Passed)
  then show ?thesis
    by (simp add: summary_createCTRFReport t_flaky_convertToCTRFTest t_status_convertToCTRFTest
        isFlaky_Passed)
qed

theorem flaky_is_passed_witness:
  "t_flaky (convertToCTRFTest nfc_fa6c (sample_case\<lparr>flakyFailures := Some [sample_retry]\<rparr>) False)
     = Some True
   \<and> t_status (convertToCTRFTest nfc_fa6c (sample_case\<lparr>flakyFailures := Some [sample_retry]\<rparr>) False)
     = Passed
   \<and> s_flaky (r_summary (results (createCTRFReport nfc_fa6c [] sample_cases None None None))) = Some 1
   \<and> s_passed (r_summary (results (createCTRFReport nfc_fa6c [] sample_cases None None None))) = 2"
  using flaky_is_passed [of nfc_fa6c "sample_case\<lparr>flakyFailures := Some [sample_retry]\<rparr>" False
      "[]" sample_cases None None None]
  by (simp add: report_eval t_flaky_convertToCTRFTest t_status_convertToCTRFTest)

end
